theory Spec2Isabelle
  imports Main
begin

section \<open>Kubernetes objects read by the client\<close>

text \<open>
  The API types of \<^verbatim>\<open>k8s.io/api\<close> are not part of the package. Each is a record holding
  the fields that \<^verbatim>\<open>internal/kubernetes/client/client.go\<close> reads; the eleven kinds that
  the client only passes through carry their metadata alone.
\<close>

record OwnerReference =
  OwnerReference_Kind :: string
  OwnerReference_Name :: string

record Container =
  Container_Name :: string
  Container_Image :: string

record ObjectMeta =
  Name :: string
  Namespace :: string
  OwnerReferences :: "OwnerReference list"

record PodSpec =
  Containers :: "Container list"

record Pod =
  Pod_ObjectMeta :: ObjectMeta
  Pod_Spec :: PodSpec

record Deployment =
  Deployment_ObjectMeta :: ObjectMeta

record DaemonSet =
  DaemonSet_ObjectMeta :: ObjectMeta

record StatefulSet =
  StatefulSet_ObjectMeta :: ObjectMeta

record ReplicaSet =
  ReplicaSet_ObjectMeta :: ObjectMeta

record Namespace =
  Namespace_ObjectMeta :: ObjectMeta

record ConfigMap =
  ConfigMap_ObjectMeta :: ObjectMeta

record Secret =
  Secret_ObjectMeta :: ObjectMeta

record Service =
  Service_ObjectMeta :: ObjectMeta

record ServiceAccount =
  ServiceAccount_ObjectMeta :: ObjectMeta

record Role =
  Role_ObjectMeta :: ObjectMeta

record ClusterRole =
  ClusterRole_ObjectMeta :: ObjectMeta

section \<open>Go values: errors, results, interface values, panics\<close>

text \<open>
  A Go \<^verbatim>\<open>error\<close> built by \<^verbatim>\<open>errors.New\<close> or by \<^verbatim>\<open>fmt.Errorf\<close> (without \<^verbatim>\<open>%w\<close>) is an
  \<^verbatim>\<open>*errors.errorString\<close>: it is known by its message. The errors handed back by the
  clientset are Go errors too, so they share the type.
\<close>

datatype error = errorString (Error: string)

text \<open>
  A Go result pair \<^verbatim>\<open>(*T, error)\<close>: both components can be nil, independently of each
  other, so the pair is a pair of options and not a sum.
\<close>

type_synonym 'a result = "'a option \<times> error option"

text \<open>
  The \<^verbatim>\<open>interface{}\<close> returned by \<^verbatim>\<open>GetTarget\<close>: the nil interface, or a typed pointer
  (itself possibly nil) of one of the kinds the switch returns.
\<close>

datatype interface =
    NilInterface
  | AnyNamespace "Namespace option"
  | AnyConfigMap "ConfigMap option"
  | AnySecret "Secret option"
  | AnyDeployment "Deployment option"
  | AnyDaemonSet "DaemonSet option"
  | AnyStatefulSet "StatefulSet option"
  | AnyReplicaSet "ReplicaSet option"
  | AnyService "Service option"
  | AnyServiceAccount "ServiceAccount option"
  | AnyRole "Role option"
  | AnyClusterRole "ClusterRole option"

text \<open>The run-time panics of the functions below.\<close>

datatype panic =
    NilPointerDereference
  | IndexOutOfRange nat nat

text \<open>
  \<^verbatim>\<open>fmt.Sprintf\<close> for the formats of this file: the only verb is \<^verbatim>\<open>%v\<close>, and each
  argument is given by the text \<^verbatim>\<open>%v\<close> prints for it (a string prints as itself). A
  verb with no argument left prints \<^verbatim>\<open>%!v(MISSING)\<close>, as in Go; no format of this
  file has fewer verbs than arguments, so the \<^verbatim>\<open>%!(EXTRA ...)\<close> suffix is left out.
\<close>

fun Sprintf :: "string \<Rightarrow> string list \<Rightarrow> string" where
  "Sprintf [] a = []"
| "Sprintf [c] a = [c]"
| "Sprintf (c # d # f) a =
     (if c = CHR ''%'' \<and> d = CHR ''v''
      then (case a of
              [] \<Rightarrow> ''%!v(MISSING)'' @ Sprintf f []
            | x # xs \<Rightarrow> x @ Sprintf f xs)
      else c # Sprintf (d # f) a)"

definition errors_New :: "string \<Rightarrow> error" where
  "errors_New text = errorString text"

definition fmt_Errorf :: "string \<Rightarrow> string list \<Rightarrow> error" where
  "fmt_Errorf format a = errors_New (Sprintf format a)"

section \<open>The clientset\<close>

text \<open>
  \<^verbatim>\<open>k8s.Clientset\<close> belongs to \<^verbatim>\<open>k8s.io/client-go\<close>. The client uses one call of
  it per kind, \<^verbatim>\<open>Get\<close> on the typed interface of that kind, so the clientset is a record
  of these twelve reads: \<^verbatim>\<open>Pods cs namespace name\<close> is the outcome of
  \<^verbatim>\<open>cs.CoreV1().Pods(namespace).Get(ctx, name, metav1.GetOptions{})\<close>, and the two
  cluster-scoped kinds take the name only.
\<close>

record Clientset =
  Pods :: "string \<Rightarrow> string \<Rightarrow> Pod result"
  Deployments :: "string \<Rightarrow> string \<Rightarrow> Deployment result"
  DaemonSets :: "string \<Rightarrow> string \<Rightarrow> DaemonSet result"
  StatefulSets :: "string \<Rightarrow> string \<Rightarrow> StatefulSet result"
  ReplicaSets :: "string \<Rightarrow> string \<Rightarrow> ReplicaSet result"
  Namespaces :: "string \<Rightarrow> Namespace result"
  ConfigMaps :: "string \<Rightarrow> string \<Rightarrow> ConfigMap result"
  Secrets :: "string \<Rightarrow> string \<Rightarrow> Secret result"
  Services :: "string \<Rightarrow> string \<Rightarrow> Service result"
  ServiceAccounts :: "string \<Rightarrow> string \<Rightarrow> ServiceAccount result"
  Roles :: "string \<Rightarrow> string \<Rightarrow> Role result"
  ClusterRoles :: "string \<Rightarrow> ClusterRole result"

text \<open>
  The reads a call issues against the API server, in order. Every function of the client
  returns them beside its result.
\<close>

datatype request =
    PodsGet string string
  | DeploymentsGet string string
  | DaemonSetsGet string string
  | StatefulSetsGet string string
  | ReplicaSetsGet string string
  | NamespacesGet string
  | ConfigMapsGet string string
  | SecretsGet string string
  | ServicesGet string string
  | ServiceAccountsGet string string
  | RolesGet string string
  | ClusterRolesGet string

text \<open>
  \<^verbatim>\<open>type Client struct { *k8s.Clientset; RestConfig *rest.Config }\<close>, after \<^verbatim>\<open>Init\<close> has
  returned nil: the clientset is there. \<^verbatim>\<open>RestConfig\<close> is read by none of the functions
  below.
\<close>

record Client =
  Client_Clientset :: Clientset

section \<open>The typed fetches\<close>

definition GetPod :: "Client \<Rightarrow> string \<Rightarrow> string \<Rightarrow> Pod result \<times> request list" where
  "GetPod client pod namespace =
     (case Pods (Client_Clientset client) namespace pod of
        (p, err) \<Rightarrow>
          if err \<noteq> None
          then ((None, Some (fmt_Errorf ''the pod '%v' in the namespace '%v' doesn't exist''
                   [pod, namespace])),
                [PodsGet namespace pod])
          else ((p, None), [PodsGet namespace pod]))"

definition GetDeployment ::
  "Client \<Rightarrow> string \<Rightarrow> string \<Rightarrow> Deployment result \<times> request list" where
  "GetDeployment client name namespace =
     (case Deployments (Client_Clientset client) namespace name of
        (p, err) \<Rightarrow>
          if err \<noteq> None
          then ((None, Some (fmt_Errorf
                   ''the deployment '%v' in the namespace '%v' doesn't exist''
                   [name, namespace])),
                [DeploymentsGet namespace name])
          else ((p, None), [DeploymentsGet namespace name]))"

definition GetDaemonSet ::
  "Client \<Rightarrow> string \<Rightarrow> string \<Rightarrow> DaemonSet result \<times> request list" where
  "GetDaemonSet client name namespace =
     (case DaemonSets (Client_Clientset client) namespace name of
        (p, err) \<Rightarrow>
          if err \<noteq> None
          then ((None, Some (fmt_Errorf
                   ''the daemonset '%v' in the namespace '%v' doesn't exist''
                   [name, namespace])),
                [DaemonSetsGet namespace name])
          else ((p, None), [DaemonSetsGet namespace name]))"

definition GetStatefulSet ::
  "Client \<Rightarrow> string \<Rightarrow> string \<Rightarrow> StatefulSet result \<times> request list" where
  "GetStatefulSet client name namespace =
     (case StatefulSets (Client_Clientset client) namespace name of
        (p, err) \<Rightarrow>
          if err \<noteq> None
          then ((None, Some (fmt_Errorf
                   ''the statefulset '%v' in the namespace '%v' doesn't exist''
                   [name, namespace])),
                [StatefulSetsGet namespace name])
          else ((p, None), [StatefulSetsGet namespace name]))"

definition GetReplicaSet ::
  "Client \<Rightarrow> string \<Rightarrow> string \<Rightarrow> ReplicaSet result \<times> request list" where
  "GetReplicaSet client name namespace =
     (case ReplicaSets (Client_Clientset client) namespace name of
        (p, err) \<Rightarrow>
          if err \<noteq> None
          then ((None, Some (fmt_Errorf
                   ''the replicaset '%v' in the namespace '%v' doesn't exist''
                   [name, namespace])),
                [ReplicaSetsGet namespace name])
          else ((p, None), [ReplicaSetsGet namespace name]))"

definition GetNamespace :: "Client \<Rightarrow> string \<Rightarrow> Namespace result \<times> request list" where
  "GetNamespace client name =
     (case Namespaces (Client_Clientset client) name of
        (p, err) \<Rightarrow>
          if err \<noteq> None
          then ((None, Some (fmt_Errorf ''the namespace '%v' doesn't exist'' [name])),
                [NamespacesGet name])
          else ((p, None), [NamespacesGet name]))"

definition GetConfigMap ::
  "Client \<Rightarrow> string \<Rightarrow> string \<Rightarrow> ConfigMap result \<times> request list" where
  "GetConfigMap client name namespace =
     (case ConfigMaps (Client_Clientset client) namespace name of
        (p, err) \<Rightarrow>
          if err \<noteq> None
          then ((None, Some (fmt_Errorf
                   ''the configmap '%v' in the namespace '%v' doesn't exist''
                   [name, namespace])),
                [ConfigMapsGet namespace name])
          else ((p, None), [ConfigMapsGet namespace name]))"

definition GetSecret :: "Client \<Rightarrow> string \<Rightarrow> string \<Rightarrow> Secret result \<times> request list" where
  "GetSecret client name namespace =
     (case Secrets (Client_Clientset client) namespace name of
        (p, err) \<Rightarrow>
          if err \<noteq> None
          then ((None, Some (fmt_Errorf
                   ''the secret '%v' in the namespace '%v' doesn't exist''
                   [name, namespace])),
                [SecretsGet namespace name])
          else ((p, None), [SecretsGet namespace name]))"

definition GetService :: "Client \<Rightarrow> string \<Rightarrow> string \<Rightarrow> Service result \<times> request list" where
  "GetService client name namespace =
     (case Services (Client_Clientset client) namespace name of
        (p, err) \<Rightarrow>
          if err \<noteq> None
          then ((None, Some (fmt_Errorf
                   ''the service '%v' in the namespace '%v' doesn't exist''
                   [name, namespace])),
                [ServicesGet namespace name])
          else ((p, None), [ServicesGet namespace name]))"

definition GetServiceAccount ::
  "Client \<Rightarrow> string \<Rightarrow> string \<Rightarrow> ServiceAccount result \<times> request list" where
  "GetServiceAccount client name namespace =
     (case ServiceAccounts (Client_Clientset client) namespace name of
        (p, err) \<Rightarrow>
          if err \<noteq> None
          then ((None, Some (fmt_Errorf
                   ''the serviceaccount '%v' in the namespace '%v' doesn't exist''
                   [name, namespace])),
                [ServiceAccountsGet namespace name])
          else ((p, None), [ServiceAccountsGet namespace name]))"

definition GetRole :: "Client \<Rightarrow> string \<Rightarrow> string \<Rightarrow> Role result \<times> request list" where
  "GetRole client name namespace =
     (case Roles (Client_Clientset client) namespace name of
        (p, err) \<Rightarrow>
          if err \<noteq> None
          then ((None, Some (fmt_Errorf
                   ''the role '%v' in the namespace '%v' doesn't exist''
                   [name, namespace])),
                [RolesGet namespace name])
          else ((p, None), [RolesGet namespace name]))"

definition GetClusterRole ::
  "Client \<Rightarrow> string \<Rightarrow> string \<Rightarrow> ClusterRole result \<times> request list" where
  "GetClusterRole client name namespace =
     (case ClusterRoles (Client_Clientset client) name of
        (p, err) \<Rightarrow>
          if err \<noteq> None
          then ((None, Some (fmt_Errorf
                   ''the clusterrole '%v' in the namespace '%v' doesn't exist''
                   [name, namespace])),
                [ClusterRolesGet name])
          else ((p, None), [ClusterRolesGet name]))"

section \<open>Container names\<close>

text \<open>
  The loop of \<^verbatim>\<open>GetContainers\<close>: \<^verbatim>\<open>c\<close> starts empty and each container appends its name.
  The argument is a pointer, so reading \<^verbatim>\<open>pod.Spec\<close> of a nil pointer panics.
\<close>

fun GetContainers_loop :: "string list \<Rightarrow> Container list \<Rightarrow> string list" where
  "GetContainers_loop c [] = c"
| "GetContainers_loop c (i # rest) = GetContainers_loop (c @ [Container_Name i]) rest"

definition GetContainers :: "Pod option \<Rightarrow> panic + string list" where
  "GetContainers pod =
     (case pod of
        None \<Rightarrow> Inl NilPointerDereference
      | Some p \<Rightarrow> Inr (GetContainers_loop [] (Containers (Pod_Spec p))))"

section \<open>Owner resolution\<close>

text \<open>
  \<^verbatim>\<open>pod.OwnerReferences[0]\<close> panics on an empty slice (index 0, length 0), and on a nil
  \<^verbatim>\<open>pod\<close>; both happen before any read is issued. The last error prints the pointer
  \<^verbatim>\<open>pod\<close> with \<^verbatim>\<open>%v\<close>: that text comes from the \<^verbatim>\<open>String\<close> method generated for
  \<^verbatim>\<open>corev1.Pod\<close> in \<^verbatim>\<open>k8s.io/api\<close>, which is not part of the package, so it is the
  parameter \<open>podString\<close>.
\<close>

definition GetDeploymentFromPod ::
  "(Pod \<Rightarrow> string) \<Rightarrow> Client \<Rightarrow> Pod option \<Rightarrow> (panic + Deployment result) \<times> request list" where
  "GetDeploymentFromPod podString client pod =
     (case pod of
        None \<Rightarrow> (Inl NilPointerDereference, [])
      | Some p \<Rightarrow>
          (case OwnerReferences (Pod_ObjectMeta p) of
             [] \<Rightarrow> (Inl (IndexOutOfRange 0 0), [])
           | owner # _ \<Rightarrow>
               (let podName = OwnerReference_Name owner;
                    namespace = Namespace (Pod_ObjectMeta p)
                in case GetDeployment client podName namespace of
                     ((r, err), calls) \<Rightarrow>
                       if err \<noteq> None then (Inr (None, err), calls)
                       else if r = None
                       then (Inr (None, Some (fmt_Errorf
                               (''can't find the deployment for the pod'%v' in namespace '%v''
                                  @ [CHR 0x27])
                               [podString p, namespace])), calls)
                       else (Inr (r, None), calls))))"

definition GetDaemonsetFromPod ::
  "(Pod \<Rightarrow> string) \<Rightarrow> Client \<Rightarrow> Pod option \<Rightarrow> (panic + DaemonSet result) \<times> request list" where
  "GetDaemonsetFromPod podString client pod =
     (case pod of
        None \<Rightarrow> (Inl NilPointerDereference, [])
      | Some p \<Rightarrow>
          (case OwnerReferences (Pod_ObjectMeta p) of
             [] \<Rightarrow> (Inl (IndexOutOfRange 0 0), [])
           | owner # _ \<Rightarrow>
               (let podName = OwnerReference_Name owner;
                    namespace = Namespace (Pod_ObjectMeta p)
                in case GetDaemonSet client podName namespace of
                     ((r, err), calls) \<Rightarrow>
                       if err \<noteq> None then (Inr (None, err), calls)
                       else if r = None
                       then (Inr (None, Some (fmt_Errorf
                               (''can't find the daemonset for the pod'%v' in namespace '%v''
                                  @ [CHR 0x27])
                               [podString p, namespace])), calls)
                       else (Inr (r, None), calls))))"

definition GetStatefulsetFromPod ::
  "(Pod \<Rightarrow> string) \<Rightarrow> Client \<Rightarrow> Pod option \<Rightarrow> (panic + StatefulSet result) \<times> request list" where
  "GetStatefulsetFromPod podString client pod =
     (case pod of
        None \<Rightarrow> (Inl NilPointerDereference, [])
      | Some p \<Rightarrow>
          (case OwnerReferences (Pod_ObjectMeta p) of
             [] \<Rightarrow> (Inl (IndexOutOfRange 0 0), [])
           | owner # _ \<Rightarrow>
               (let podName = OwnerReference_Name owner;
                    namespace = Namespace (Pod_ObjectMeta p)
                in case GetStatefulSet client podName namespace of
                     ((r, err), calls) \<Rightarrow>
                       if err \<noteq> None then (Inr (None, err), calls)
                       else if r = None
                       then (Inr (None, Some (fmt_Errorf
                               (''can't find the statefulset for the pod'%v' in namespace '%v''
                                  @ [CHR 0x27])
                               [podString p, namespace])), calls)
                       else (Inr (r, None), calls))))"

definition GetReplicasetFromPod ::
  "(Pod \<Rightarrow> string) \<Rightarrow> Client \<Rightarrow> Pod option \<Rightarrow> (panic + ReplicaSet result) \<times> request list" where
  "GetReplicasetFromPod podString client pod =
     (case pod of
        None \<Rightarrow> (Inl NilPointerDereference, [])
      | Some p \<Rightarrow>
          (case OwnerReferences (Pod_ObjectMeta p) of
             [] \<Rightarrow> (Inl (IndexOutOfRange 0 0), [])
           | owner # _ \<Rightarrow>
               (let podName = OwnerReference_Name owner;
                    namespace = Namespace (Pod_ObjectMeta p)
                in case GetReplicaSet client podName namespace of
                     ((r, err), calls) \<Rightarrow>
                       if err \<noteq> None then (Inr (None, err), calls)
                       else if r = None
                       then (Inr (None, Some (fmt_Errorf
                               (''can't find the replicaset for the pod'%v' in namespace '%v''
                                  @ [CHR 0x27])
                               [podString p, namespace])), calls)
                       else (Inr (r, None), calls))))"

section \<open>Dispatch on the resource type\<close>

text \<open>
  The switch of \<^verbatim>\<open>GetTarget\<close>, case by case in the order of the source. A typed pointer
  returned through \<^verbatim>\<open>interface{}\<close> keeps its type, also when it is nil; only the last
  line returns the nil interface.
\<close>

definition GetTarget ::
  "Client \<Rightarrow> string \<Rightarrow> string \<Rightarrow> string \<Rightarrow> (interface \<times> error option) \<times> request list" where
  "GetTarget client resource name namespace =
     (if resource = ''namespaces''
      then (case GetNamespace client name of
              ((p, err), calls) \<Rightarrow> ((AnyNamespace p, err), calls))
      else if resource = ''configmaps''
      then (case GetConfigMap client name namespace of
              ((p, err), calls) \<Rightarrow> ((AnyConfigMap p, err), calls))
      else if resource = ''secrets''
      then (case GetSecret client name namespace of
              ((p, err), calls) \<Rightarrow> ((AnySecret p, err), calls))
      else if resource = ''deployments''
      then (case GetDeployment client name namespace of
              ((p, err), calls) \<Rightarrow> ((AnyDeployment p, err), calls))
      else if resource = ''daemonsets''
      then (case GetDeployment client name namespace of
              ((p, err), calls) \<Rightarrow> ((AnyDeployment p, err), calls))
      else if resource = ''statefulsets''
      then (case GetStatefulSet client name namespace of
              ((p, err), calls) \<Rightarrow> ((AnyStatefulSet p, err), calls))
      else if resource = ''replicasets''
      then (case GetReplicaSet client name namespace of
              ((p, err), calls) \<Rightarrow> ((AnyReplicaSet p, err), calls))
      else if resource = ''services''
      then (case GetService client name namespace of
              ((p, err), calls) \<Rightarrow> ((AnyService p, err), calls))
      else if resource = ''serviceaccounts''
      then (case GetServiceAccount client name namespace of
              ((p, err), calls) \<Rightarrow> ((AnyServiceAccount p, err), calls))
      else if resource = ''roles''
      then (case GetRole client name namespace of
              ((p, err), calls) \<Rightarrow> ((AnyRole p, err), calls))
      else if resource = ''clusterroles''
      then (case GetClusterRole client name namespace of
              ((p, err), calls) \<Rightarrow> ((AnyClusterRole p, err), calls))
      else ((NilInterface,
             Some (errors_New ''the resource doesn't exist or its type is not yet managed'')),
            []))"

section \<open>The messages and the resource-type tags of the specification\<close>

text \<open>
  The specification gives the error messages as forms: for a typed fetch, the kind, the
  quoted name and the quoted namespace; for a cluster-scoped kind, the same without the
  namespace clause. They are written down here from its words, to compare them with what
  \<^const>\<open>fmt_Errorf\<close> builds from the formats of the source.
\<close>

definition quoted :: "string \<Rightarrow> string" where
  "quoted s = [CHR 0x27] @ s @ [CHR 0x27]"

definition not_found_message :: "string \<Rightarrow> string \<Rightarrow> string \<Rightarrow> string" where
  "not_found_message kind name namespace =
     ''the '' @ kind @ '' '' @ quoted name @ '' in the namespace '' @ quoted namespace
       @ '' doesn't exist''"

definition not_found_message_cluster_scoped :: "string \<Rightarrow> string \<Rightarrow> string" where
  "not_found_message_cluster_scoped kind name =
     ''the '' @ kind @ '' '' @ quoted name @ '' doesn't exist''"

text \<open>
  The message of the last branch of an owner resolution, for the kind, the printed pod
  and the namespace, and the message of the last line of \<^const>\<open>GetTarget\<close>.
\<close>

definition owner_resolution_message :: "string \<Rightarrow> string \<Rightarrow> string \<Rightarrow> string" where
  "owner_resolution_message kind pod namespace =
     ''can't find the '' @ kind @ '' for the pod'' @ quoted pod @ '' in namespace ''
       @ quoted namespace"

definition unsupported_message :: string where
  "unsupported_message = ''the resource doesn't exist or its type is not yet managed''"

text \<open>The closed enumeration of resource-type tags, in the order of the specification.\<close>

definition resource_type_tags :: "string list" where
  "resource_type_tags =
     [''namespaces'', ''configmaps'', ''secrets'', ''deployments'', ''daemonsets'',
      ''statefulsets'', ''replicasets'', ''services'', ''serviceaccounts'', ''roles'',
      ''clusterroles'']"

text \<open>
  What the cluster holds under a tag: the read of the kind the tag names, with the object
  as an interface value. A tag outside the enumeration names no kind.
\<close>

definition read_of_kind ::
  "Clientset \<Rightarrow> string \<Rightarrow> string \<Rightarrow> string \<Rightarrow> interface \<times> error option" where
  "read_of_kind cs tag name namespace =
     (if tag = ''namespaces''
      then (case Namespaces cs name of (p, err) \<Rightarrow> (AnyNamespace p, err))
      else if tag = ''configmaps''
      then (case ConfigMaps cs namespace name of (p, err) \<Rightarrow> (AnyConfigMap p, err))
      else if tag = ''secrets''
      then (case Secrets cs namespace name of (p, err) \<Rightarrow> (AnySecret p, err))
      else if tag = ''deployments''
      then (case Deployments cs namespace name of (p, err) \<Rightarrow> (AnyDeployment p, err))
      else if tag = ''daemonsets''
      then (case DaemonSets cs namespace name of (p, err) \<Rightarrow> (AnyDaemonSet p, err))
      else if tag = ''statefulsets''
      then (case StatefulSets cs namespace name of (p, err) \<Rightarrow> (AnyStatefulSet p, err))
      else if tag = ''replicasets''
      then (case ReplicaSets cs namespace name of (p, err) \<Rightarrow> (AnyReplicaSet p, err))
      else if tag = ''services''
      then (case Services cs namespace name of (p, err) \<Rightarrow> (AnyService p, err))
      else if tag = ''serviceaccounts''
      then (case ServiceAccounts cs namespace name of
              (p, err) \<Rightarrow> (AnyServiceAccount p, err))
      else if tag = ''roles''
      then (case Roles cs namespace name of (p, err) \<Rightarrow> (AnyRole p, err))
      else if tag = ''clusterroles''
      then (case ClusterRoles cs name of (p, err) \<Rightarrow> (AnyClusterRole p, err))
      else (NilInterface, None))"

section \<open>A small cluster\<close>

text \<open>
  One object of each kind, all in the namespace \<^verbatim>\<open>ns1\<close>. A read that finds nothing
  answers as client-go does: an empty object of the kind and a not-found error.
\<close>

definition meta :: "string \<Rightarrow> string \<Rightarrow> ObjectMeta" where
  "meta name namespace = \<lparr>Name = name, Namespace = namespace, OwnerReferences = []\<rparr>"

definition notFound :: "string \<Rightarrow> string \<Rightarrow> error" where
  "notFound res name =
     errorString (res @ '' '' @ [CHR 0x22] @ name @ [CHR 0x22] @ '' not found'')"

definition web_pod :: Pod where
  "web_pod =
     \<lparr>Pod_ObjectMeta =
        \<lparr>Name = ''web-0'', Namespace = ''ns1'',
         OwnerReferences =
           [\<lparr>OwnerReference_Kind = ''Deployment'', OwnerReference_Name = ''web''\<rparr>]\<rparr>,
      Pod_Spec =
        \<lparr>Containers = [\<lparr>Container_Name = ''app'', Container_Image = ''nginx''\<rparr>,
                       \<lparr>Container_Name = ''sidecar'', Container_Image = ''envoy''\<rparr>]\<rparr>\<rparr>"

definition example_Clientset :: Clientset where
  "example_Clientset =
     \<lparr>Pods = (\<lambda>namespace name.
        if namespace = ''ns1'' \<and> name = ''web-0'' then (Some web_pod, None)
        else (Some \<lparr>Pod_ObjectMeta = meta [] [], Pod_Spec = \<lparr>Containers = []\<rparr>\<rparr>,
              Some (notFound ''pods'' name))),
      Deployments = (\<lambda>namespace name.
        if namespace = ''ns1'' \<and> name = ''web''
        then (Some \<lparr>Deployment_ObjectMeta = meta ''web'' ''ns1''\<rparr>, None)
        else (Some \<lparr>Deployment_ObjectMeta = meta [] []\<rparr>,
              Some (notFound ''deployments.apps'' name))),
      DaemonSets = (\<lambda>namespace name.
        if namespace = ''ns1'' \<and> name = ''agent''
        then (Some \<lparr>DaemonSet_ObjectMeta = meta ''agent'' ''ns1''\<rparr>, None)
        else (Some \<lparr>DaemonSet_ObjectMeta = meta [] []\<rparr>,
              Some (notFound ''daemonsets.apps'' name))),
      StatefulSets = (\<lambda>namespace name.
        if namespace = ''ns1'' \<and> name = ''web''
        then (Some \<lparr>StatefulSet_ObjectMeta = meta ''web'' ''ns1''\<rparr>, None)
        else (Some \<lparr>StatefulSet_ObjectMeta = meta [] []\<rparr>,
              Some (notFound ''statefulsets.apps'' name))),
      ReplicaSets = (\<lambda>namespace name.
        if namespace = ''ns1'' \<and> name = ''web''
        then (Some \<lparr>ReplicaSet_ObjectMeta = meta ''web'' ''ns1''\<rparr>, None)
        else (Some \<lparr>ReplicaSet_ObjectMeta = meta [] []\<rparr>,
              Some (notFound ''replicasets.apps'' name))),
      Namespaces = (\<lambda>name.
        if name = ''ns1''
        then (Some \<lparr>Namespace_ObjectMeta = meta ''ns1'' []\<rparr>, None)
        else (Some \<lparr>Namespace_ObjectMeta = meta [] []\<rparr>,
              Some (notFound ''namespaces'' name))),
      ConfigMaps = (\<lambda>namespace name.
        if namespace = ''ns1'' \<and> name = ''settings''
        then (Some \<lparr>ConfigMap_ObjectMeta = meta ''settings'' ''ns1''\<rparr>, None)
        else (Some \<lparr>ConfigMap_ObjectMeta = meta [] []\<rparr>,
              Some (notFound ''configmaps'' name))),
      Secrets = (\<lambda>namespace name.
        if namespace = ''ns1'' \<and> name = ''token''
        then (Some \<lparr>Secret_ObjectMeta = meta ''token'' ''ns1''\<rparr>, None)
        else (Some \<lparr>Secret_ObjectMeta = meta [] []\<rparr>,
              Some (notFound ''secrets'' name))),
      Services = (\<lambda>namespace name.
        if namespace = ''ns1'' \<and> name = ''web''
        then (Some \<lparr>Service_ObjectMeta = meta ''web'' ''ns1''\<rparr>, None)
        else (Some \<lparr>Service_ObjectMeta = meta [] []\<rparr>,
              Some (notFound ''services'' name))),
      ServiceAccounts = (\<lambda>namespace name.
        if namespace = ''ns1'' \<and> name = ''default''
        then (Some \<lparr>ServiceAccount_ObjectMeta = meta ''default'' ''ns1''\<rparr>, None)
        else (Some \<lparr>ServiceAccount_ObjectMeta = meta [] []\<rparr>,
              Some (notFound ''serviceaccounts'' name))),
      Roles = (\<lambda>namespace name.
        if namespace = ''ns1'' \<and> name = ''reader''
        then (Some \<lparr>Role_ObjectMeta = meta ''reader'' ''ns1''\<rparr>, None)
        else (Some \<lparr>Role_ObjectMeta = meta [] []\<rparr>,
              Some (notFound ''roles.rbac.authorization.k8s.io'' name))),
      ClusterRoles = (\<lambda>name.
        if name = ''admin''
        then (Some \<lparr>ClusterRole_ObjectMeta = meta ''admin'' []\<rparr>, None)
        else (Some \<lparr>ClusterRole_ObjectMeta = meta [] []\<rparr>,
              Some (notFound ''clusterroles.rbac.authorization.k8s.io'' name)))\<rparr>"

definition example_Client :: Client where
  "example_Client = \<lparr>Client_Clientset = example_Clientset\<rparr>"

text \<open>The same cluster with no controller left: every read of a controller kind fails.\<close>

definition bare_Clientset :: Clientset where
  "bare_Clientset =
     example_Clientset
       \<lparr>Deployments := (\<lambda>namespace name.
          (Some \<lparr>Deployment_ObjectMeta = meta [] []\<rparr>,
           Some (notFound ''deployments.apps'' name))),
        DaemonSets := (\<lambda>namespace name.
          (Some \<lparr>DaemonSet_ObjectMeta = meta [] []\<rparr>,
           Some (notFound ''daemonsets.apps'' name))),
        StatefulSets := (\<lambda>namespace name.
          (Some \<lparr>StatefulSet_ObjectMeta = meta [] []\<rparr>,
           Some (notFound ''statefulsets.apps'' name))),
        ReplicaSets := (\<lambda>namespace name.
          (Some \<lparr>ReplicaSet_ObjectMeta = meta [] []\<rparr>,
           Some (notFound ''replicasets.apps'' name)))\<rparr>"

definition bare_Client :: Client where
  "bare_Client = \<lparr>Client_Clientset = bare_Clientset\<rparr>"



text \<open>A rendering of a pod for the examples: its name between the marks of a Go struct.\<close>

definition example_podString :: "Pod \<Rightarrow> string" where
  "example_podString p = ''&Pod{'' @ Name (Pod_ObjectMeta p) @ ''}''"

text \<open>A pod that no controller created: it has no owner reference.\<close>

definition ownerless_pod :: Pod where
  "ownerless_pod =
     \<lparr>Pod_ObjectMeta = \<lparr>Name = ''debug'', Namespace = ''ns1'', OwnerReferences = []\<rparr>,
      Pod_Spec = \<lparr>Containers = [\<lparr>Container_Name = ''shell'', Container_Image = ''busybox''\<rparr>]\<rparr>\<rparr>"

text \<open>
  The pod \<open>p\<close> with every owner reference after the first replaced by \<open>others\<close>.
\<close>

definition with_owner_tail :: "Pod \<Rightarrow> OwnerReference list \<Rightarrow> Pod" where
  "with_owner_tail p others =
     p\<lparr>Pod_ObjectMeta := (Pod_ObjectMeta p)
         \<lparr>OwnerReferences := hd (OwnerReferences (Pod_ObjectMeta p)) # others\<rparr>\<rparr>"

section \<open>What each typed fetch computes\<close>

text \<open>
  Each typed fetch, as one equation: the read it issues, the error it builds when the read
  fails (in the form of the specification's message), the object of the read otherwise.
\<close>

lemma GetPod_eq:
  "GetPod c n ns =
     (if snd (Pods (Client_Clientset c) ns n) \<noteq> None
      then (None, Some (errorString (not_found_message ''pod'' n ns)))
      else (fst (Pods (Client_Clientset c) ns n), None),
      [PodsGet ns n])"
  by (simp add: GetPod_def fmt_Errorf_def errors_New_def not_found_message_def quoted_def
      split: prod.split)

lemma GetDeployment_eq:
  "GetDeployment c n ns =
     (if snd (Deployments (Client_Clientset c) ns n) \<noteq> None
      then (None, Some (errorString (not_found_message ''deployment'' n ns)))
      else (fst (Deployments (Client_Clientset c) ns n), None),
      [DeploymentsGet ns n])"
  by (simp add: GetDeployment_def fmt_Errorf_def errors_New_def not_found_message_def quoted_def
      split: prod.split)

lemma GetDaemonSet_eq:
  "GetDaemonSet c n ns =
     (if snd (DaemonSets (Client_Clientset c) ns n) \<noteq> None
      then (None, Some (errorString (not_found_message ''daemonset'' n ns)))
      else (fst (DaemonSets (Client_Clientset c) ns n), None),
      [DaemonSetsGet ns n])"
  by (simp add: GetDaemonSet_def fmt_Errorf_def errors_New_def not_found_message_def quoted_def
      split: prod.split)

lemma GetStatefulSet_eq:
  "GetStatefulSet c n ns =
     (if snd (StatefulSets (Client_Clientset c) ns n) \<noteq> None
      then (None, Some (errorString (not_found_message ''statefulset'' n ns)))
      else (fst (StatefulSets (Client_Clientset c) ns n), None),
      [StatefulSetsGet ns n])"
  by (simp add: GetStatefulSet_def fmt_Errorf_def errors_New_def not_found_message_def quoted_def
      split: prod.split)

lemma GetReplicaSet_eq:
  "GetReplicaSet c n ns =
     (if snd (ReplicaSets (Client_Clientset c) ns n) \<noteq> None
      then (None, Some (errorString (not_found_message ''replicaset'' n ns)))
      else (fst (ReplicaSets (Client_Clientset c) ns n), None),
      [ReplicaSetsGet ns n])"
  by (simp add: GetReplicaSet_def fmt_Errorf_def errors_New_def not_found_message_def quoted_def
      split: prod.split)

lemma GetNamespace_eq:
  "GetNamespace c n =
     (if snd (Namespaces (Client_Clientset c) n) \<noteq> None
      then (None, Some (errorString (not_found_message_cluster_scoped ''namespace'' n)))
      else (fst (Namespaces (Client_Clientset c) n), None),
      [NamespacesGet n])"
  by (simp add: GetNamespace_def fmt_Errorf_def errors_New_def not_found_message_cluster_scoped_def
      quoted_def split: prod.split)

lemma GetConfigMap_eq:
  "GetConfigMap c n ns =
     (if snd (ConfigMaps (Client_Clientset c) ns n) \<noteq> None
      then (None, Some (errorString (not_found_message ''configmap'' n ns)))
      else (fst (ConfigMaps (Client_Clientset c) ns n), None),
      [ConfigMapsGet ns n])"
  by (simp add: GetConfigMap_def fmt_Errorf_def errors_New_def not_found_message_def quoted_def
      split: prod.split)

lemma GetSecret_eq:
  "GetSecret c n ns =
     (if snd (Secrets (Client_Clientset c) ns n) \<noteq> None
      then (None, Some (errorString (not_found_message ''secret'' n ns)))
      else (fst (Secrets (Client_Clientset c) ns n), None),
      [SecretsGet ns n])"
  by (simp add: GetSecret_def fmt_Errorf_def errors_New_def not_found_message_def quoted_def
      split: prod.split)

lemma GetService_eq:
  "GetService c n ns =
     (if snd (Services (Client_Clientset c) ns n) \<noteq> None
      then (None, Some (errorString (not_found_message ''service'' n ns)))
      else (fst (Services (Client_Clientset c) ns n), None),
      [ServicesGet ns n])"
  by (simp add: GetService_def fmt_Errorf_def errors_New_def not_found_message_def quoted_def
      split: prod.split)

lemma GetServiceAccount_eq:
  "GetServiceAccount c n ns =
     (if snd (ServiceAccounts (Client_Clientset c) ns n) \<noteq> None
      then (None, Some (errorString (not_found_message ''serviceaccount'' n ns)))
      else (fst (ServiceAccounts (Client_Clientset c) ns n), None),
      [ServiceAccountsGet ns n])"
  by (simp add: GetServiceAccount_def fmt_Errorf_def errors_New_def not_found_message_def quoted_def
      split: prod.split)

lemma GetRole_eq:
  "GetRole c n ns =
     (if snd (Roles (Client_Clientset c) ns n) \<noteq> None
      then (None, Some (errorString (not_found_message ''role'' n ns)))
      else (fst (Roles (Client_Clientset c) ns n), None),
      [RolesGet ns n])"
  by (simp add: GetRole_def fmt_Errorf_def errors_New_def not_found_message_def quoted_def
      split: prod.split)

lemma GetClusterRole_eq:
  "GetClusterRole c n ns =
     (if snd (ClusterRoles (Client_Clientset c) n) \<noteq> None
      then (None, Some (errorString (not_found_message ''clusterrole'' n ns)))
      else (fst (ClusterRoles (Client_Clientset c) n), None),
      [ClusterRolesGet n])"
  by (simp add: GetClusterRole_def fmt_Errorf_def errors_New_def not_found_message_def quoted_def
      split: prod.split)

lemmas typed_fetch_eqs =
  GetPod_eq GetDeployment_eq GetDaemonSet_eq GetStatefulSet_eq GetReplicaSet_eq
  GetNamespace_eq GetConfigMap_eq GetSecret_eq GetService_eq GetServiceAccount_eq
  GetRole_eq GetClusterRole_eq

section \<open>The messages are told apart\<close>

lemma not_found_message_last: "last (not_found_message k n ns) = CHR ''t''"
  by (simp add: not_found_message_def)

lemma not_found_message_cluster_scoped_last:
  "last (not_found_message_cluster_scoped k n) = CHR ''t''"
  by (simp add: not_found_message_cluster_scoped_def)

lemma not_found_message_not_unsupported: "not_found_message k n ns \<noteq> unsupported_message"
proof
  assume "not_found_message k n ns = unsupported_message"
  then have "last (not_found_message k n ns) = last unsupported_message" by simp
  then show False by (simp add: not_found_message_last unsupported_message_def)
qed

lemma not_found_message_cluster_scoped_not_unsupported:
  "not_found_message_cluster_scoped k n \<noteq> unsupported_message"
proof
  assume "not_found_message_cluster_scoped k n = unsupported_message"
  then have "last (not_found_message_cluster_scoped k n) = last unsupported_message"
    by simp
  then show False
    by (simp add: not_found_message_cluster_scoped_last unsupported_message_def)
qed

lemma not_found_message_not_owner_resolution:
  "not_found_message k n ns \<noteq> owner_resolution_message k' p ns'"
  by (simp add: not_found_message_def owner_resolution_message_def)

section \<open>Container names\<close>

lemma GetContainers_loop_eq:
  "GetContainers_loop c cs = c @ map Container_Name cs"
  by (induction cs arbitrary: c) simp_all

text \<open>
  Claim C8. \<^const>\<open>GetContainers\<close> takes no client and issues no read. For every pod it
  returns, without failing, the names of the containers of the pod's specification, in the
  order they are declared and as many as there are containers; a pod with no container
  gives the empty list, and the pod with the containers \<^verbatim>\<open>app\<close> and \<^verbatim>\<open>sidecar\<close>
  gives these two names in this order. (The nil pointer is no pod: there the function
  panics, which is the \<open>None\<close> case of the definition.)
\<close>

theorem GetContainers_names:
  "GetContainers (Some p) = Inr (map Container_Name (Containers (Pod_Spec p)))
   \<and> (\<exists>names. GetContainers (Some p) = Inr names
          \<and> length names = length (Containers (Pod_Spec p)))
   \<and> GetContainers (Some (p\<lparr>Pod_Spec := \<lparr>Containers = []\<rparr>\<rparr>)) = Inr []
   \<and> GetContainers (Some web_pod) = Inr [''app'', ''sidecar'']"
  by (simp add: GetContainers_def GetContainers_loop_eq web_pod_def)

section \<open>Dispatch\<close>

text \<open>
  Claim C2. For every client, name and namespace, \<^const>\<open>GetTarget\<close> under the tag
  \<^verbatim>\<open>daemonsets\<close> returns what it returns under the tag \<^verbatim>\<open>deployments\<close>, the same object
  or the same error: it dispatches to the deployment fetch, and the one read it issues is
  the read of a deployment.
\<close>

theorem GetTarget_daemonsets_as_deployments:
  "GetTarget c ''daemonsets'' n ns = GetTarget c ''deployments'' n ns
   \<and> GetTarget c ''daemonsets'' n ns =
       (case GetDeployment c n ns of ((p, err), calls) \<Rightarrow> ((AnyDeployment p, err), calls))
   \<and> snd (GetTarget c ''daemonsets'' n ns) = [DeploymentsGet ns n]"
  by (simp add: GetTarget_def GetDeployment_eq)

text \<open>
  Claim C3. For every tag outside the eleven of the enumeration, and every name and
  namespace, \<^const>\<open>GetTarget\<close> returns the nil interface with the error of its last line
  and issues no read; and that error is the error of no typed fetch, whatever the client,
  the name and the namespace.
\<close>

theorem GetTarget_unsupported:
  assumes "resource \<notin> set resource_type_tags"
  shows "GetTarget c resource n ns =
      ((NilInterface, Some (errorString unsupported_message)), [])
    \<and> snd (fst (GetPod c' n' ns')) \<noteq> Some (errorString unsupported_message)
    \<and> snd (fst (GetDeployment c' n' ns')) \<noteq> Some (errorString unsupported_message)
    \<and> snd (fst (GetDaemonSet c' n' ns')) \<noteq> Some (errorString unsupported_message)
    \<and> snd (fst (GetStatefulSet c' n' ns')) \<noteq> Some (errorString unsupported_message)
    \<and> snd (fst (GetReplicaSet c' n' ns')) \<noteq> Some (errorString unsupported_message)
    \<and> snd (fst (GetNamespace c' n')) \<noteq> Some (errorString unsupported_message)
    \<and> snd (fst (GetConfigMap c' n' ns')) \<noteq> Some (errorString unsupported_message)
    \<and> snd (fst (GetSecret c' n' ns')) \<noteq> Some (errorString unsupported_message)
    \<and> snd (fst (GetService c' n' ns')) \<noteq> Some (errorString unsupported_message)
    \<and> snd (fst (GetServiceAccount c' n' ns')) \<noteq> Some (errorString unsupported_message)
    \<and> snd (fst (GetRole c' n' ns')) \<noteq> Some (errorString unsupported_message)
    \<and> snd (fst (GetClusterRole c' n' ns')) \<noteq> Some (errorString unsupported_message)"
proof -
  have "GetTarget c resource n ns =
      ((NilInterface, Some (errorString unsupported_message)), [])"
    using assms
    by (simp add: GetTarget_def resource_type_tags_def errors_New_def
        unsupported_message_def)
  then show ?thesis
    by (simp add: typed_fetch_eqs not_found_message_not_unsupported
        not_found_message_cluster_scoped_not_unsupported)
qed

theorem GetTarget_unsupported_witness:
  "''bogus-kind'' \<notin> set resource_type_tags
   \<and> GetTarget example_Client ''bogus-kind'' ''web'' ''ns1'' =
       ((NilInterface,
         Some (errorString ''the resource doesn't exist or its type is not yet managed'')),
        [])
   \<and> snd (fst (GetDeployment example_Client ''api'' ''ns1''))
       \<noteq> Some (errorString ''the resource doesn't exist or its type is not yet managed'')"
  using GetTarget_unsupported [of "''bogus-kind''" example_Client "''web''" "''ns1''"
      example_Client "''api''" "''ns1''"]
  by (simp add: resource_type_tags_def unsupported_message_def)

section \<open>Owner resolution\<close>

text \<open>
  An owner resolution on a pod with a first owner reference, as one equation over the
  typed fetch it calls; and on a pod with none, where the index panics before any read.
\<close>

lemma GetDeploymentFromPod_Cons:
  assumes "OwnerReferences (Pod_ObjectMeta p) = owner # rest"
  shows "GetDeploymentFromPod f c (Some p) =
     (case GetDeployment c (OwnerReference_Name owner) (Namespace (Pod_ObjectMeta p)) of
        ((r, err), calls) \<Rightarrow>
          (Inr (if err \<noteq> None then (None, err)
                else if r = None
                then (None, Some (errorString (owner_resolution_message ''deployment'' (f p)
                        (Namespace (Pod_ObjectMeta p)))))
                else (r, None)),
           calls))"
  using assms by (simp add: GetDeploymentFromPod_def fmt_Errorf_def errors_New_def
      owner_resolution_message_def quoted_def split: prod.split)

lemma GetDeploymentFromPod_Nil:
  assumes "OwnerReferences (Pod_ObjectMeta p) = []"
  shows "GetDeploymentFromPod f c (Some p) = (Inl (IndexOutOfRange 0 0), [])"
  using assms by (simp add: GetDeploymentFromPod_def)

lemma GetDaemonsetFromPod_Cons:
  assumes "OwnerReferences (Pod_ObjectMeta p) = owner # rest"
  shows "GetDaemonsetFromPod f c (Some p) =
     (case GetDaemonSet c (OwnerReference_Name owner) (Namespace (Pod_ObjectMeta p)) of
        ((r, err), calls) \<Rightarrow>
          (Inr (if err \<noteq> None then (None, err)
                else if r = None
                then (None, Some (errorString (owner_resolution_message ''daemonset'' (f p)
                        (Namespace (Pod_ObjectMeta p)))))
                else (r, None)),
           calls))"
  using assms by (simp add: GetDaemonsetFromPod_def fmt_Errorf_def errors_New_def
      owner_resolution_message_def quoted_def split: prod.split)

lemma GetDaemonsetFromPod_Nil:
  assumes "OwnerReferences (Pod_ObjectMeta p) = []"
  shows "GetDaemonsetFromPod f c (Some p) = (Inl (IndexOutOfRange 0 0), [])"
  using assms by (simp add: GetDaemonsetFromPod_def)

lemma GetStatefulsetFromPod_Cons:
  assumes "OwnerReferences (Pod_ObjectMeta p) = owner # rest"
  shows "GetStatefulsetFromPod f c (Some p) =
     (case GetStatefulSet c (OwnerReference_Name owner) (Namespace (Pod_ObjectMeta p)) of
        ((r, err), calls) \<Rightarrow>
          (Inr (if err \<noteq> None then (None, err)
                else if r = None
                then (None, Some (errorString (owner_resolution_message ''statefulset'' (f p)
                        (Namespace (Pod_ObjectMeta p)))))
                else (r, None)),
           calls))"
  using assms by (simp add: GetStatefulsetFromPod_def fmt_Errorf_def errors_New_def
      owner_resolution_message_def quoted_def split: prod.split)

lemma GetStatefulsetFromPod_Nil:
  assumes "OwnerReferences (Pod_ObjectMeta p) = []"
  shows "GetStatefulsetFromPod f c (Some p) = (Inl (IndexOutOfRange 0 0), [])"
  using assms by (simp add: GetStatefulsetFromPod_def)

lemma GetReplicasetFromPod_Cons:
  assumes "OwnerReferences (Pod_ObjectMeta p) = owner # rest"
  shows "GetReplicasetFromPod f c (Some p) =
     (case GetReplicaSet c (OwnerReference_Name owner) (Namespace (Pod_ObjectMeta p)) of
        ((r, err), calls) \<Rightarrow>
          (Inr (if err \<noteq> None then (None, err)
                else if r = None
                then (None, Some (errorString (owner_resolution_message ''replicaset'' (f p)
                        (Namespace (Pod_ObjectMeta p)))))
                else (r, None)),
           calls))"
  using assms by (simp add: GetReplicasetFromPod_def fmt_Errorf_def errors_New_def
      owner_resolution_message_def quoted_def split: prod.split)

lemma GetReplicasetFromPod_Nil:
  assumes "OwnerReferences (Pod_ObjectMeta p) = []"
  shows "GetReplicasetFromPod f c (Some p) = (Inl (IndexOutOfRange 0 0), [])"
  using assms by (simp add: GetReplicasetFromPod_def)


text \<open>
  Claim C4. For every pod with at least one owner reference, each of the four owner
  resolutions issues the reads of its typed fetch called with the name of the first owner
  reference and the namespace of the pod; and when that fetch returns an error, the
  resolution returns that very error with no object: the not-found error of the fetch,
  which is no owner-resolution failure (whatever the kind, the printed pod and the
  namespace of such a failure).
\<close>

theorem owner_resolution_propagates_fetch_error:
  assumes "OwnerReferences (Pod_ObjectMeta p) = owner # rest"
  shows "(snd (GetDeploymentFromPod f c (Some p)) =
        snd (GetDeployment c (OwnerReference_Name owner) (Namespace (Pod_ObjectMeta p)))
      \<and> (\<forall>e. snd (fst (GetDeployment c (OwnerReference_Name owner)
                 (Namespace (Pod_ObjectMeta p)))) = Some e \<longrightarrow>
            fst (GetDeploymentFromPod f c (Some p)) = Inr (None, Some e)
            \<and> e = errorString (not_found_message ''deployment'' (OwnerReference_Name owner)
                  (Namespace (Pod_ObjectMeta p)))
            \<and> (\<forall>k t m. e \<noteq> errorString (owner_resolution_message k t m))))
    \<and> (snd (GetDaemonsetFromPod f c (Some p)) =
        snd (GetDaemonSet c (OwnerReference_Name owner) (Namespace (Pod_ObjectMeta p)))
      \<and> (\<forall>e. snd (fst (GetDaemonSet c (OwnerReference_Name owner)
                 (Namespace (Pod_ObjectMeta p)))) = Some e \<longrightarrow>
            fst (GetDaemonsetFromPod f c (Some p)) = Inr (None, Some e)
            \<and> e = errorString (not_found_message ''daemonset'' (OwnerReference_Name owner)
                  (Namespace (Pod_ObjectMeta p)))
            \<and> (\<forall>k t m. e \<noteq> errorString (owner_resolution_message k t m))))
    \<and> (snd (GetStatefulsetFromPod f c (Some p)) =
        snd (GetStatefulSet c (OwnerReference_Name owner) (Namespace (Pod_ObjectMeta p)))
      \<and> (\<forall>e. snd (fst (GetStatefulSet c (OwnerReference_Name owner)
                 (Namespace (Pod_ObjectMeta p)))) = Some e \<longrightarrow>
            fst (GetStatefulsetFromPod f c (Some p)) = Inr (None, Some e)
            \<and> e = errorString (not_found_message ''statefulset'' (OwnerReference_Name owner)
                  (Namespace (Pod_ObjectMeta p)))
            \<and> (\<forall>k t m. e \<noteq> errorString (owner_resolution_message k t m))))
    \<and> (snd (GetReplicasetFromPod f c (Some p)) =
        snd (GetReplicaSet c (OwnerReference_Name owner) (Namespace (Pod_ObjectMeta p)))
      \<and> (\<forall>e. snd (fst (GetReplicaSet c (OwnerReference_Name owner)
                 (Namespace (Pod_ObjectMeta p)))) = Some e \<longrightarrow>
            fst (GetReplicasetFromPod f c (Some p)) = Inr (None, Some e)
            \<and> e = errorString (not_found_message ''replicaset'' (OwnerReference_Name owner)
                  (Namespace (Pod_ObjectMeta p)))
            \<and> (\<forall>k t m. e \<noteq> errorString (owner_resolution_message k t m))))"
proof -
  have GetDeploymentFromPod: "(snd (GetDeploymentFromPod f c (Some p)) =
        snd (GetDeployment c (OwnerReference_Name owner) (Namespace (Pod_ObjectMeta p)))
      \<and> (\<forall>e. snd (fst (GetDeployment c (OwnerReference_Name owner)
                 (Namespace (Pod_ObjectMeta p)))) = Some e \<longrightarrow>
            fst (GetDeploymentFromPod f c (Some p)) = Inr (None, Some e)
            \<and> e = errorString (not_found_message ''deployment'' (OwnerReference_Name owner)
                  (Namespace (Pod_ObjectMeta p)))
            \<and> (\<forall>k t m. e \<noteq> errorString (owner_resolution_message k t m))))"
    using assms
    by (simp add: GetDeploymentFromPod_Cons GetDeployment_eq not_found_message_not_owner_resolution)
  have GetDaemonsetFromPod: "(snd (GetDaemonsetFromPod f c (Some p)) =
        snd (GetDaemonSet c (OwnerReference_Name owner) (Namespace (Pod_ObjectMeta p)))
      \<and> (\<forall>e. snd (fst (GetDaemonSet c (OwnerReference_Name owner)
                 (Namespace (Pod_ObjectMeta p)))) = Some e \<longrightarrow>
            fst (GetDaemonsetFromPod f c (Some p)) = Inr (None, Some e)
            \<and> e = errorString (not_found_message ''daemonset'' (OwnerReference_Name owner)
                  (Namespace (Pod_ObjectMeta p)))
            \<and> (\<forall>k t m. e \<noteq> errorString (owner_resolution_message k t m))))"
    using assms
    by (simp add: GetDaemonsetFromPod_Cons GetDaemonSet_eq not_found_message_not_owner_resolution)
  have GetStatefulsetFromPod: "(snd (GetStatefulsetFromPod f c (Some p)) =
        snd (GetStatefulSet c (OwnerReference_Name owner) (Namespace (Pod_ObjectMeta p)))
      \<and> (\<forall>e. snd (fst (GetStatefulSet c (OwnerReference_Name owner)
                 (Namespace (Pod_ObjectMeta p)))) = Some e \<longrightarrow>
            fst (GetStatefulsetFromPod f c (Some p)) = Inr (None, Some e)
            \<and> e = errorString (not_found_message ''statefulset'' (OwnerReference_Name owner)
                  (Namespace (Pod_ObjectMeta p)))
            \<and> (\<forall>k t m. e \<noteq> errorString (owner_resolution_message k t m))))"
    using assms
    by (simp add: GetStatefulsetFromPod_Cons GetStatefulSet_eq not_found_message_not_owner_resolution)
  have GetReplicasetFromPod: "(snd (GetReplicasetFromPod f c (Some p)) =
        snd (GetReplicaSet c (OwnerReference_Name owner) (Namespace (Pod_ObjectMeta p)))
      \<and> (\<forall>e. snd (fst (GetReplicaSet c (OwnerReference_Name owner)
                 (Namespace (Pod_ObjectMeta p)))) = Some e \<longrightarrow>
            fst (GetReplicasetFromPod f c (Some p)) = Inr (None, Some e)
            \<and> e = errorString (not_found_message ''replicaset'' (OwnerReference_Name owner)
                  (Namespace (Pod_ObjectMeta p)))
            \<and> (\<forall>k t m. e \<noteq> errorString (owner_resolution_message k t m))))"
    using assms
    by (simp add: GetReplicasetFromPod_Cons GetReplicaSet_eq not_found_message_not_owner_resolution)
  show ?thesis
    using GetDeploymentFromPod GetDaemonsetFromPod GetStatefulsetFromPod GetReplicasetFromPod
    by blast
qed

theorem owner_resolution_propagates_fetch_error_witness:
  "OwnerReferences (Pod_ObjectMeta web_pod) =
     [\<lparr>OwnerReference_Kind = ''Deployment'', OwnerReference_Name = ''web''\<rparr>]
   \<and> GetDeployment bare_Client ''web'' ''ns1'' =
       ((None, Some (errorString ''the deployment 'web' in the namespace 'ns1' doesn't exist'')),
        [DeploymentsGet ''ns1'' ''web''])
   \<and> GetDeploymentFromPod example_podString bare_Client (Some web_pod) =
       (Inr (None,
          Some (errorString ''the deployment 'web' in the namespace 'ns1' doesn't exist'')),
        [DeploymentsGet ''ns1'' ''web''])"
proof -
  have refs: "OwnerReferences (Pod_ObjectMeta web_pod) =
     [\<lparr>OwnerReference_Kind = ''Deployment'', OwnerReference_Name = ''web''\<rparr>]"
    by (simp add: web_pod_def)
  have ns: "Namespace (Pod_ObjectMeta web_pod) = ''ns1''"
    by (simp add: web_pod_def)
  have fetch: "GetDeployment bare_Client ''web'' ''ns1'' =
       ((None, Some (errorString ''the deployment 'web' in the namespace 'ns1' doesn't exist'')),
        [DeploymentsGet ''ns1'' ''web''])"
    by (simp add: GetDeployment_eq bare_Client_def bare_Clientset_def notFound_def
        not_found_message_def quoted_def)
  from owner_resolution_propagates_fetch_error [OF refs, of example_podString bare_Client]
  have "snd (GetDeploymentFromPod example_podString bare_Client (Some web_pod)) =
          [DeploymentsGet ''ns1'' ''web'']"
    and "fst (GetDeploymentFromPod example_podString bare_Client (Some web_pod)) =
          Inr (None,
            Some (errorString ''the deployment 'web' in the namespace 'ns1' doesn't exist''))"
    by (simp_all add: ns fetch)
  then have "GetDeploymentFromPod example_podString bare_Client (Some web_pod) =
       (Inr (None,
          Some (errorString ''the deployment 'web' in the namespace 'ns1' doesn't exist'')),
        [DeploymentsGet ''ns1'' ''web''])"
    by (simp add: prod_eq_iff)
  with refs fetch show ?thesis by simp
qed

text \<open>
  On a pod with a non-empty sequence of owner references none of the four resolutions
  panics (the index 0 is in bounds), the one read it issues is the read of its kind for
  the namespace of the pod and the name of the first owner reference, and the other owner
  references are not read: replacing them changes neither the reads nor, outside the last
  branch whose message prints the whole pod, the result.
\<close>

lemma owner_resolution_reads_first_owner:
  assumes "OwnerReferences (Pod_ObjectMeta p) \<noteq> []"
  shows "((\<exists>r. fst (GetDeploymentFromPod f c (Some p)) = Inr r)
      \<and> snd (GetDeploymentFromPod f c (Some p)) =
          [DeploymentsGet (Namespace (Pod_ObjectMeta p))
             (OwnerReference_Name (hd (OwnerReferences (Pod_ObjectMeta p))))]
      \<and> snd (GetDeploymentFromPod f c (Some (with_owner_tail p others))) = snd (GetDeploymentFromPod f c (Some p))
      \<and> (fst (GetDeploymentFromPod f c (Some p)) \<noteq>
             Inr (None, Some (errorString (owner_resolution_message ''deployment'' (f p)
                    (Namespace (Pod_ObjectMeta p))))) \<longrightarrow>
           GetDeploymentFromPod f c (Some (with_owner_tail p others)) = GetDeploymentFromPod f c (Some p)))
    \<and> ((\<exists>r. fst (GetDaemonsetFromPod f c (Some p)) = Inr r)
      \<and> snd (GetDaemonsetFromPod f c (Some p)) =
          [DaemonSetsGet (Namespace (Pod_ObjectMeta p))
             (OwnerReference_Name (hd (OwnerReferences (Pod_ObjectMeta p))))]
      \<and> snd (GetDaemonsetFromPod f c (Some (with_owner_tail p others))) = snd (GetDaemonsetFromPod f c (Some p))
      \<and> (fst (GetDaemonsetFromPod f c (Some p)) \<noteq>
             Inr (None, Some (errorString (owner_resolution_message ''daemonset'' (f p)
                    (Namespace (Pod_ObjectMeta p))))) \<longrightarrow>
           GetDaemonsetFromPod f c (Some (with_owner_tail p others)) = GetDaemonsetFromPod f c (Some p)))
    \<and> ((\<exists>r. fst (GetStatefulsetFromPod f c (Some p)) = Inr r)
      \<and> snd (GetStatefulsetFromPod f c (Some p)) =
          [StatefulSetsGet (Namespace (Pod_ObjectMeta p))
             (OwnerReference_Name (hd (OwnerReferences (Pod_ObjectMeta p))))]
      \<and> snd (GetStatefulsetFromPod f c (Some (with_owner_tail p others))) = snd (GetStatefulsetFromPod f c (Some p))
      \<and> (fst (GetStatefulsetFromPod f c (Some p)) \<noteq>
             Inr (None, Some (errorString (owner_resolution_message ''statefulset'' (f p)
                    (Namespace (Pod_ObjectMeta p))))) \<longrightarrow>
           GetStatefulsetFromPod f c (Some (with_owner_tail p others)) = GetStatefulsetFromPod f c (Some p)))
    \<and> ((\<exists>r. fst (GetReplicasetFromPod f c (Some p)) = Inr r)
      \<and> snd (GetReplicasetFromPod f c (Some p)) =
          [ReplicaSetsGet (Namespace (Pod_ObjectMeta p))
             (OwnerReference_Name (hd (OwnerReferences (Pod_ObjectMeta p))))]
      \<and> snd (GetReplicasetFromPod f c (Some (with_owner_tail p others))) = snd (GetReplicasetFromPod f c (Some p))
      \<and> (fst (GetReplicasetFromPod f c (Some p)) \<noteq>
             Inr (None, Some (errorString (owner_resolution_message ''replicaset'' (f p)
                    (Namespace (Pod_ObjectMeta p))))) \<longrightarrow>
           GetReplicasetFromPod f c (Some (with_owner_tail p others)) = GetReplicasetFromPod f c (Some p)))"
proof -
  from assms obtain owner rest where p: "OwnerReferences (Pod_ObjectMeta p) = owner # rest"
    by (cases "OwnerReferences (Pod_ObjectMeta p)") auto
  then have q: "OwnerReferences (Pod_ObjectMeta (with_owner_tail p others)) = owner # others"
    by (simp add: with_owner_tail_def)
  have ns: "Namespace (Pod_ObjectMeta (with_owner_tail p others)) = Namespace (Pod_ObjectMeta p)"
    by (simp add: with_owner_tail_def)
  have hd: "hd (OwnerReferences (Pod_ObjectMeta p)) = owner"
    using p by simp
  have GetDeploymentFromPod: "((\<exists>r. fst (GetDeploymentFromPod f c (Some p)) = Inr r)
      \<and> snd (GetDeploymentFromPod f c (Some p)) =
          [DeploymentsGet (Namespace (Pod_ObjectMeta p))
             (OwnerReference_Name (hd (OwnerReferences (Pod_ObjectMeta p))))]
      \<and> snd (GetDeploymentFromPod f c (Some (with_owner_tail p others))) = snd (GetDeploymentFromPod f c (Some p))
      \<and> (fst (GetDeploymentFromPod f c (Some p)) \<noteq>
             Inr (None, Some (errorString (owner_resolution_message ''deployment'' (f p)
                    (Namespace (Pod_ObjectMeta p))))) \<longrightarrow>
           GetDeploymentFromPod f c (Some (with_owner_tail p others)) = GetDeploymentFromPod f c (Some p)))"
    by (simp add: GetDeploymentFromPod_Cons [OF p] GetDeploymentFromPod_Cons [OF q] ns hd GetDeployment_eq)
  have GetDaemonsetFromPod: "((\<exists>r. fst (GetDaemonsetFromPod f c (Some p)) = Inr r)
      \<and> snd (GetDaemonsetFromPod f c (Some p)) =
          [DaemonSetsGet (Namespace (Pod_ObjectMeta p))
             (OwnerReference_Name (hd (OwnerReferences (Pod_ObjectMeta p))))]
      \<and> snd (GetDaemonsetFromPod f c (Some (with_owner_tail p others))) = snd (GetDaemonsetFromPod f c (Some p))
      \<and> (fst (GetDaemonsetFromPod f c (Some p)) \<noteq>
             Inr (None, Some (errorString (owner_resolution_message ''daemonset'' (f p)
                    (Namespace (Pod_ObjectMeta p))))) \<longrightarrow>
           GetDaemonsetFromPod f c (Some (with_owner_tail p others)) = GetDaemonsetFromPod f c (Some p)))"
    by (simp add: GetDaemonsetFromPod_Cons [OF p] GetDaemonsetFromPod_Cons [OF q] ns hd GetDaemonSet_eq)
  have GetStatefulsetFromPod: "((\<exists>r. fst (GetStatefulsetFromPod f c (Some p)) = Inr r)
      \<and> snd (GetStatefulsetFromPod f c (Some p)) =
          [StatefulSetsGet (Namespace (Pod_ObjectMeta p))
             (OwnerReference_Name (hd (OwnerReferences (Pod_ObjectMeta p))))]
      \<and> snd (GetStatefulsetFromPod f c (Some (with_owner_tail p others))) = snd (GetStatefulsetFromPod f c (Some p))
      \<and> (fst (GetStatefulsetFromPod f c (Some p)) \<noteq>
             Inr (None, Some (errorString (owner_resolution_message ''statefulset'' (f p)
                    (Namespace (Pod_ObjectMeta p))))) \<longrightarrow>
           GetStatefulsetFromPod f c (Some (with_owner_tail p others)) = GetStatefulsetFromPod f c (Some p)))"
    by (simp add: GetStatefulsetFromPod_Cons [OF p] GetStatefulsetFromPod_Cons [OF q] ns hd GetStatefulSet_eq)
  have GetReplicasetFromPod: "((\<exists>r. fst (GetReplicasetFromPod f c (Some p)) = Inr r)
      \<and> snd (GetReplicasetFromPod f c (Some p)) =
          [ReplicaSetsGet (Namespace (Pod_ObjectMeta p))
             (OwnerReference_Name (hd (OwnerReferences (Pod_ObjectMeta p))))]
      \<and> snd (GetReplicasetFromPod f c (Some (with_owner_tail p others))) = snd (GetReplicasetFromPod f c (Some p))
      \<and> (fst (GetReplicasetFromPod f c (Some p)) \<noteq>
             Inr (None, Some (errorString (owner_resolution_message ''replicaset'' (f p)
                    (Namespace (Pod_ObjectMeta p))))) \<longrightarrow>
           GetReplicasetFromPod f c (Some (with_owner_tail p others)) = GetReplicasetFromPod f c (Some p)))"
    by (simp add: GetReplicasetFromPod_Cons [OF p] GetReplicasetFromPod_Cons [OF q] ns hd GetReplicaSet_eq)
  show ?thesis
    using GetDeploymentFromPod GetDaemonsetFromPod GetStatefulsetFromPod GetReplicasetFromPod
    by blast
qed

lemma owner_resolution_reads_first_owner_example:
  "OwnerReferences (Pod_ObjectMeta web_pod) \<noteq> []
   \<and> GetDeploymentFromPod example_podString example_Client (Some web_pod) =
       (Inr (Some \<lparr>Deployment_ObjectMeta = meta ''web'' ''ns1''\<rparr>, None),
        [DeploymentsGet ''ns1'' ''web''])
   \<and> GetDeploymentFromPod example_podString example_Client
         (Some (with_owner_tail web_pod
            [\<lparr>OwnerReference_Kind = ''ReplicaSet'', OwnerReference_Name = ''other''\<rparr>])) =
       (Inr (Some \<lparr>Deployment_ObjectMeta = meta ''web'' ''ns1''\<rparr>, None),
        [DeploymentsGet ''ns1'' ''web''])"
proof -
  have refs: "OwnerReferences (Pod_ObjectMeta web_pod) \<noteq> []"
    by (simp add: web_pod_def)
  have run: "GetDeploymentFromPod example_podString example_Client (Some web_pod) =
       (Inr (Some \<lparr>Deployment_ObjectMeta = meta ''web'' ''ns1''\<rparr>, None),
        [DeploymentsGet ''ns1'' ''web''])"
    by (simp add: GetDeploymentFromPod_def GetDeployment_eq web_pod_def example_Client_def
        example_Clientset_def Let_def)
  from owner_resolution_reads_first_owner [OF refs, of example_podString example_Client
      "[\<lparr>OwnerReference_Kind = ''ReplicaSet'', OwnerReference_Name = ''other''\<rparr>]"]
  have "GetDeploymentFromPod example_podString example_Client
         (Some (with_owner_tail web_pod
            [\<lparr>OwnerReference_Kind = ''ReplicaSet'', OwnerReference_Name = ''other''\<rparr>])) =
        GetDeploymentFromPod example_podString example_Client (Some web_pod)"
    by (simp add: run)
  with refs run show ?thesis by simp
qed

text \<open>
  Claim C5. An owner resolution is to read the first owner reference of a pod that has
  one, and on a pod with an empty sequence of owner references it is to report that no
  owner reference is present, never to index out of bounds. The four resolutions index
  the sequence with no check: on the pod \<^const>\<open>ownerless_pod\<close>, whose sequence is empty,
  each of them panics, index 0 out of range for length 0, before any read is issued.
\<close>

theorem owner_resolution_panics_without_owner:
  "OwnerReferences (Pod_ObjectMeta ownerless_pod) = []
   \<and> GetDeploymentFromPod example_podString example_Client (Some ownerless_pod) =
       (Inl (IndexOutOfRange 0 0), [])
   \<and> GetDaemonsetFromPod example_podString example_Client (Some ownerless_pod) =
       (Inl (IndexOutOfRange 0 0), [])
   \<and> GetStatefulsetFromPod example_podString example_Client (Some ownerless_pod) =
       (Inl (IndexOutOfRange 0 0), [])
   \<and> GetReplicasetFromPod example_podString example_Client (Some ownerless_pod) =
       (Inl (IndexOutOfRange 0 0), [])"
  by (simp add: ownerless_pod_def GetDeploymentFromPod_def GetDaemonsetFromPod_def
      GetStatefulsetFromPod_def GetReplicasetFromPod_def)

text \<open>
  In the small cluster each controller fetch returns no object exactly when it returns an
  error.
\<close>

lemma example_Client_fetches:
  "\<forall>n ns. (fst (fst (GetDeployment example_Client n ns)) = None) =
     (snd (fst (GetDeployment example_Client n ns)) \<noteq> None)"
  "\<forall>n ns. (fst (fst (GetDaemonSet example_Client n ns)) = None) =
     (snd (fst (GetDaemonSet example_Client n ns)) \<noteq> None)"
  "\<forall>n ns. (fst (fst (GetStatefulSet example_Client n ns)) = None) =
     (snd (fst (GetStatefulSet example_Client n ns)) \<noteq> None)"
  "\<forall>n ns. (fst (fst (GetReplicaSet example_Client n ns)) = None) =
     (snd (fst (GetReplicaSet example_Client n ns)) \<noteq> None)"
  by (simp_all add: typed_fetch_eqs example_Client_def example_Clientset_def)

text \<open>
  Claim C10. Let the deployment, daemonset, statefulset and replicaset fetches of a client
  return a nil object exactly when they return an error. Then, for every pod with at least
  one owner reference, each owner resolution returns either the error of its typed fetch
  (with no object) or an object with no error, and never the error of its last branch, the
  one that cannot find the controller of the pod: that branch is not reached.
\<close>

theorem owner_resolution_never_null_result:
  assumes Deployment: "\<forall>n ns. (fst (fst (GetDeployment c n ns)) = None) = (snd (fst (GetDeployment c n ns)) \<noteq> None)"
    and DaemonSet: "\<forall>n ns. (fst (fst (GetDaemonSet c n ns)) = None) = (snd (fst (GetDaemonSet c n ns)) \<noteq> None)"
    and StatefulSet: "\<forall>n ns. (fst (fst (GetStatefulSet c n ns)) = None) = (snd (fst (GetStatefulSet c n ns)) \<noteq> None)"
    and ReplicaSet: "\<forall>n ns. (fst (fst (GetReplicaSet c n ns)) = None) = (snd (fst (GetReplicaSet c n ns)) \<noteq> None)"
    and refs: "OwnerReferences (Pod_ObjectMeta p) = owner # rest"
  shows "(((\<exists>e. fst (GetDeploymentFromPod f c (Some p)) = Inr (None, Some e)
             \<and> snd (fst (GetDeployment c (OwnerReference_Name owner)
                    (Namespace (Pod_ObjectMeta p)))) = Some e)
          \<or> (\<exists>d. fst (GetDeploymentFromPod f c (Some p)) = Inr (Some d, None)))
      \<and> (\<forall>k t m. fst (GetDeploymentFromPod f c (Some p)) \<noteq>
             Inr (None, Some (errorString (owner_resolution_message k t m)))))
    \<and> (((\<exists>e. fst (GetDaemonsetFromPod f c (Some p)) = Inr (None, Some e)
             \<and> snd (fst (GetDaemonSet c (OwnerReference_Name owner)
                    (Namespace (Pod_ObjectMeta p)))) = Some e)
          \<or> (\<exists>d. fst (GetDaemonsetFromPod f c (Some p)) = Inr (Some d, None)))
      \<and> (\<forall>k t m. fst (GetDaemonsetFromPod f c (Some p)) \<noteq>
             Inr (None, Some (errorString (owner_resolution_message k t m)))))
    \<and> (((\<exists>e. fst (GetStatefulsetFromPod f c (Some p)) = Inr (None, Some e)
             \<and> snd (fst (GetStatefulSet c (OwnerReference_Name owner)
                    (Namespace (Pod_ObjectMeta p)))) = Some e)
          \<or> (\<exists>d. fst (GetStatefulsetFromPod f c (Some p)) = Inr (Some d, None)))
      \<and> (\<forall>k t m. fst (GetStatefulsetFromPod f c (Some p)) \<noteq>
             Inr (None, Some (errorString (owner_resolution_message k t m)))))
    \<and> (((\<exists>e. fst (GetReplicasetFromPod f c (Some p)) = Inr (None, Some e)
             \<and> snd (fst (GetReplicaSet c (OwnerReference_Name owner)
                    (Namespace (Pod_ObjectMeta p)))) = Some e)
          \<or> (\<exists>d. fst (GetReplicasetFromPod f c (Some p)) = Inr (Some d, None)))
      \<and> (\<forall>k t m. fst (GetReplicasetFromPod f c (Some p)) \<noteq>
             Inr (None, Some (errorString (owner_resolution_message k t m)))))"
proof -
  have GetDeploymentFromPod: "(((\<exists>e. fst (GetDeploymentFromPod f c (Some p)) = Inr (None, Some e)
             \<and> snd (fst (GetDeployment c (OwnerReference_Name owner)
                    (Namespace (Pod_ObjectMeta p)))) = Some e)
          \<or> (\<exists>d. fst (GetDeploymentFromPod f c (Some p)) = Inr (Some d, None)))
      \<and> (\<forall>k t m. fst (GetDeploymentFromPod f c (Some p)) \<noteq>
             Inr (None, Some (errorString (owner_resolution_message k t m)))))"
  proof -
    from Deployment have "(fst (fst (GetDeployment c (OwnerReference_Name owner)
        (Namespace (Pod_ObjectMeta p)))) = None) =
      (snd (fst (GetDeployment c (OwnerReference_Name owner)
        (Namespace (Pod_ObjectMeta p)))) \<noteq> None)"
      by blast
    then show ?thesis
      by (cases "GetDeployment c (OwnerReference_Name owner) (Namespace (Pod_ObjectMeta p))")
        (auto simp add: GetDeploymentFromPod_Cons [OF refs] GetDeployment_eq
          not_found_message_not_owner_resolution split: if_splits)
  qed
  have GetDaemonsetFromPod: "(((\<exists>e. fst (GetDaemonsetFromPod f c (Some p)) = Inr (None, Some e)
             \<and> snd (fst (GetDaemonSet c (OwnerReference_Name owner)
                    (Namespace (Pod_ObjectMeta p)))) = Some e)
          \<or> (\<exists>d. fst (GetDaemonsetFromPod f c (Some p)) = Inr (Some d, None)))
      \<and> (\<forall>k t m. fst (GetDaemonsetFromPod f c (Some p)) \<noteq>
             Inr (None, Some (errorString (owner_resolution_message k t m)))))"
  proof -
    from DaemonSet have "(fst (fst (GetDaemonSet c (OwnerReference_Name owner)
        (Namespace (Pod_ObjectMeta p)))) = None) =
      (snd (fst (GetDaemonSet c (OwnerReference_Name owner)
        (Namespace (Pod_ObjectMeta p)))) \<noteq> None)"
      by blast
    then show ?thesis
      by (cases "GetDaemonSet c (OwnerReference_Name owner) (Namespace (Pod_ObjectMeta p))")
        (auto simp add: GetDaemonsetFromPod_Cons [OF refs] GetDaemonSet_eq
          not_found_message_not_owner_resolution split: if_splits)
  qed
  have GetStatefulsetFromPod: "(((\<exists>e. fst (GetStatefulsetFromPod f c (Some p)) = Inr (None, Some e)
             \<and> snd (fst (GetStatefulSet c (OwnerReference_Name owner)
                    (Namespace (Pod_ObjectMeta p)))) = Some e)
          \<or> (\<exists>d. fst (GetStatefulsetFromPod f c (Some p)) = Inr (Some d, None)))
      \<and> (\<forall>k t m. fst (GetStatefulsetFromPod f c (Some p)) \<noteq>
             Inr (None, Some (errorString (owner_resolution_message k t m)))))"
  proof -
    from StatefulSet have "(fst (fst (GetStatefulSet c (OwnerReference_Name owner)
        (Namespace (Pod_ObjectMeta p)))) = None) =
      (snd (fst (GetStatefulSet c (OwnerReference_Name owner)
        (Namespace (Pod_ObjectMeta p)))) \<noteq> None)"
      by blast
    then show ?thesis
      by (cases "GetStatefulSet c (OwnerReference_Name owner) (Namespace (Pod_ObjectMeta p))")
        (auto simp add: GetStatefulsetFromPod_Cons [OF refs] GetStatefulSet_eq
          not_found_message_not_owner_resolution split: if_splits)
  qed
  have GetReplicasetFromPod: "(((\<exists>e. fst (GetReplicasetFromPod f c (Some p)) = Inr (None, Some e)
             \<and> snd (fst (GetReplicaSet c (OwnerReference_Name owner)
                    (Namespace (Pod_ObjectMeta p)))) = Some e)
          \<or> (\<exists>d. fst (GetReplicasetFromPod f c (Some p)) = Inr (Some d, None)))
      \<and> (\<forall>k t m. fst (GetReplicasetFromPod f c (Some p)) \<noteq>
             Inr (None, Some (errorString (owner_resolution_message k t m)))))"
  proof -
    from ReplicaSet have "(fst (fst (GetReplicaSet c (OwnerReference_Name owner)
        (Namespace (Pod_ObjectMeta p)))) = None) =
      (snd (fst (GetReplicaSet c (OwnerReference_Name owner)
        (Namespace (Pod_ObjectMeta p)))) \<noteq> None)"
      by blast
    then show ?thesis
      by (cases "GetReplicaSet c (OwnerReference_Name owner) (Namespace (Pod_ObjectMeta p))")
        (auto simp add: GetReplicasetFromPod_Cons [OF refs] GetReplicaSet_eq
          not_found_message_not_owner_resolution split: if_splits)
  qed
  show ?thesis
    using GetDeploymentFromPod GetDaemonsetFromPod GetStatefulsetFromPod GetReplicasetFromPod
    by blast
qed

theorem owner_resolution_never_null_result_witness:
  "(\<forall>n ns. (fst (fst (GetDeployment example_Client n ns)) = None) =
       (snd (fst (GetDeployment example_Client n ns)) \<noteq> None))
   \<and> (\<forall>n ns. (fst (fst (GetDaemonSet example_Client n ns)) = None) =
       (snd (fst (GetDaemonSet example_Client n ns)) \<noteq> None))
   \<and> (\<forall>n ns. (fst (fst (GetStatefulSet example_Client n ns)) = None) =
       (snd (fst (GetStatefulSet example_Client n ns)) \<noteq> None))
   \<and> (\<forall>n ns. (fst (fst (GetReplicaSet example_Client n ns)) = None) =
       (snd (fst (GetReplicaSet example_Client n ns)) \<noteq> None))
   \<and> OwnerReferences (Pod_ObjectMeta web_pod) =
       [\<lparr>OwnerReference_Kind = ''Deployment'', OwnerReference_Name = ''web''\<rparr>]
   \<and> fst (GetDeploymentFromPod example_podString example_Client (Some web_pod)) \<noteq>
       Inr (None, Some (errorString (owner_resolution_message ''deployment''
              (example_podString web_pod) ''ns1'')))
   \<and> fst (GetDaemonsetFromPod example_podString example_Client (Some web_pod)) \<noteq>
       Inr (None, Some (errorString (owner_resolution_message ''daemonset''
              (example_podString web_pod) ''ns1'')))"
proof -
  have refs: "OwnerReferences (Pod_ObjectMeta web_pod) =
       [\<lparr>OwnerReference_Kind = ''Deployment'', OwnerReference_Name = ''web''\<rparr>]"
    by (simp add: web_pod_def)
  note inst = owner_resolution_never_null_result [OF example_Client_fetches refs,
      of example_podString]
  from inst have "\<forall>k t m. fst (GetDeploymentFromPod example_podString example_Client
        (Some web_pod)) \<noteq> Inr (None, Some (errorString (owner_resolution_message k t m)))"
    and "\<forall>k t m. fst (GetDaemonsetFromPod example_podString example_Client
        (Some web_pod)) \<noteq> Inr (None, Some (errorString (owner_resolution_message k t m)))"
    by blast+
  with refs example_Client_fetches show ?thesis by blast
qed

section \<open>Typed fetches: object or error\<close>



section \<open>The message of a failed read\<close>

text \<open>
  A failed read gives the same result whatever error the clientset returned: the cause
  does not show in the error of the fetch.
\<close>

lemma GetPod_failure_hides_cause:
  assumes "snd (Pods (Client_Clientset c) ns n) \<noteq> None"
    and "snd (Pods (Client_Clientset c') ns n) \<noteq> None"
  shows "GetPod c n ns = GetPod c' n ns"
  using assms by (simp add: GetPod_eq)

lemma GetDeployment_failure_hides_cause:
  assumes "snd (Deployments (Client_Clientset c) ns n) \<noteq> None"
    and "snd (Deployments (Client_Clientset c') ns n) \<noteq> None"
  shows "GetDeployment c n ns = GetDeployment c' n ns"
  using assms by (simp add: GetDeployment_eq)

lemma GetDaemonSet_failure_hides_cause:
  assumes "snd (DaemonSets (Client_Clientset c) ns n) \<noteq> None"
    and "snd (DaemonSets (Client_Clientset c') ns n) \<noteq> None"
  shows "GetDaemonSet c n ns = GetDaemonSet c' n ns"
  using assms by (simp add: GetDaemonSet_eq)

lemma GetStatefulSet_failure_hides_cause:
  assumes "snd (StatefulSets (Client_Clientset c) ns n) \<noteq> None"
    and "snd (StatefulSets (Client_Clientset c') ns n) \<noteq> None"
  shows "GetStatefulSet c n ns = GetStatefulSet c' n ns"
  using assms by (simp add: GetStatefulSet_eq)

lemma GetReplicaSet_failure_hides_cause:
  assumes "snd (ReplicaSets (Client_Clientset c) ns n) \<noteq> None"
    and "snd (ReplicaSets (Client_Clientset c') ns n) \<noteq> None"
  shows "GetReplicaSet c n ns = GetReplicaSet c' n ns"
  using assms by (simp add: GetReplicaSet_eq)

lemma GetNamespace_failure_hides_cause:
  assumes "snd (Namespaces (Client_Clientset c) n) \<noteq> None"
    and "snd (Namespaces (Client_Clientset c') n) \<noteq> None"
  shows "GetNamespace c n = GetNamespace c' n"
  using assms by (simp add: GetNamespace_eq)

lemma GetConfigMap_failure_hides_cause:
  assumes "snd (ConfigMaps (Client_Clientset c) ns n) \<noteq> None"
    and "snd (ConfigMaps (Client_Clientset c') ns n) \<noteq> None"
  shows "GetConfigMap c n ns = GetConfigMap c' n ns"
  using assms by (simp add: GetConfigMap_eq)

lemma GetSecret_failure_hides_cause:
  assumes "snd (Secrets (Client_Clientset c) ns n) \<noteq> None"
    and "snd (Secrets (Client_Clientset c') ns n) \<noteq> None"
  shows "GetSecret c n ns = GetSecret c' n ns"
  using assms by (simp add: GetSecret_eq)

lemma GetService_failure_hides_cause:
  assumes "snd (Services (Client_Clientset c) ns n) \<noteq> None"
    and "snd (Services (Client_Clientset c') ns n) \<noteq> None"
  shows "GetService c n ns = GetService c' n ns"
  using assms by (simp add: GetService_eq)

lemma GetServiceAccount_failure_hides_cause:
  assumes "snd (ServiceAccounts (Client_Clientset c) ns n) \<noteq> None"
    and "snd (ServiceAccounts (Client_Clientset c') ns n) \<noteq> None"
  shows "GetServiceAccount c n ns = GetServiceAccount c' n ns"
  using assms by (simp add: GetServiceAccount_eq)

lemma GetRole_failure_hides_cause:
  assumes "snd (Roles (Client_Clientset c) ns n) \<noteq> None"
    and "snd (Roles (Client_Clientset c') ns n) \<noteq> None"
  shows "GetRole c n ns = GetRole c' n ns"
  using assms by (simp add: GetRole_eq)

lemma GetClusterRole_failure_hides_cause:
  assumes "snd (ClusterRoles (Client_Clientset c) n) \<noteq> None"
    and "snd (ClusterRoles (Client_Clientset c') n) \<noteq> None"
  shows "GetClusterRole c n ns = GetClusterRole c' n ns"
  using assms by (simp add: GetClusterRole_eq)

text \<open>
  Claim C6. A failed read is to give the message of the kind, the name and the namespace,
  and for the two cluster-scoped kinds the message without the namespace clause. The
  equations of the typed fetches above give the first form for the ten namespaced kinds
  and the second for \<^const>\<open>GetNamespace\<close>. \<^const>\<open>GetClusterRole\<close> does not: for the
  cluster role \<^verbatim>\<open>viewer\<close>, which the small cluster does not hold, its message names the
  namespace \<^verbatim>\<open>ns1\<close> it was called with, where the form without the clause and the
  sibling \<^const>\<open>GetNamespace\<close> name none.
\<close>

theorem GetClusterRole_error_names_namespace:
  "GetClusterRole example_Client ''viewer'' ''ns1'' =
     ((None,
       Some (errorString ''the clusterrole 'viewer' in the namespace 'ns1' doesn't exist'')),
      [ClusterRolesGet ''viewer''])
   \<and> not_found_message_cluster_scoped ''clusterrole'' ''viewer'' =
       ''the clusterrole 'viewer' doesn't exist''
   \<and> GetNamespace example_Client ''ns2'' =
       ((None, Some (errorString ''the namespace 'ns2' doesn't exist'')),
        [NamespacesGet ''ns2''])"
  by (simp add: GetClusterRole_eq GetNamespace_eq example_Client_def example_Clientset_def
      notFound_def not_found_message_def not_found_message_cluster_scoped_def quoted_def)

text \<open>
  The read of a cluster role, and its result when the read succeeds, do not depend on the
  namespace; nor does anything \<^const>\<open>GetTarget\<close> returns under the tag \<^verbatim>\<open>namespaces\<close>.
\<close>

lemma cluster_scoped_reads_ignore_namespace:
  "snd (GetClusterRole c n ns1) = snd (GetClusterRole c n ns2)"
  "snd (ClusterRoles (Client_Clientset c) n) = None \<Longrightarrow>
     GetClusterRole c n ns1 = GetClusterRole c n ns2"
  "GetTarget c ''namespaces'' n ns1 = GetTarget c ''namespaces'' n ns2"
  by (simp_all add: GetClusterRole_eq GetTarget_def)

text \<open>
  Claim C7. A cluster-scoped fetch is to ignore the namespace it is given: two calls that
  differ in the namespace alone are to return the same result. For a cluster role that
  the cluster does not hold, \<^const>\<open>GetClusterRole\<close> called with \<^verbatim>\<open>ns1\<close> and with
  \<^verbatim>\<open>ns2\<close> returns two different errors, each naming its namespace.
\<close>

theorem GetClusterRole_depends_on_namespace:
  "snd (fst (GetClusterRole example_Client ''viewer'' ''ns1'')) =
     Some (errorString ''the clusterrole 'viewer' in the namespace 'ns1' doesn't exist'')
   \<and> snd (fst (GetClusterRole example_Client ''viewer'' ''ns2'')) =
     Some (errorString ''the clusterrole 'viewer' in the namespace 'ns2' doesn't exist'')
   \<and> GetClusterRole example_Client ''viewer'' ''ns1''
       \<noteq> GetClusterRole example_Client ''viewer'' ''ns2''"
  by (simp add: GetClusterRole_eq example_Client_def example_Clientset_def
      notFound_def not_found_message_def quoted_def)

section \<open>Dispatch returns the object of the kind\<close>

text \<open>
  For ten of the eleven tags, when the cluster holds an object under the tag for a name
  and a namespace, \<^const>\<open>GetTarget\<close> returns that object with no error.
\<close>

lemma GetTarget_returns_object_of_kind:
  assumes "tag \<in> set resource_type_tags" and "tag \<noteq> ''daemonsets''"
    and "read_of_kind (Client_Clientset c) tag n ns = (obj, None)"
  shows "fst (GetTarget c tag n ns) = (obj, None)"
proof -
  have tags: "tag = ''namespaces'' \<or> tag = ''configmaps'' \<or> tag = ''secrets''
      \<or> tag = ''deployments'' \<or> tag = ''daemonsets'' \<or> tag = ''statefulsets''
      \<or> tag = ''replicasets'' \<or> tag = ''services'' \<or> tag = ''serviceaccounts''
      \<or> tag = ''roles'' \<or> tag = ''clusterroles''"
    using assms(1) unfolding resource_type_tags_def by (simp only: set_simps insert_iff empty_iff simp_thms)
  have Namespace: "tag = ''namespaces'' \<Longrightarrow> ?thesis"
    using assms(3)
    by (cases "Namespaces (Client_Clientset c) n")
      (simp add: GetTarget_def read_of_kind_def GetNamespace_eq split: if_splits)
  have ConfigMap: "tag = ''configmaps'' \<Longrightarrow> ?thesis"
    using assms(3)
    by (cases "ConfigMaps (Client_Clientset c) ns n")
      (simp add: GetTarget_def read_of_kind_def GetConfigMap_eq split: if_splits)
  have Secret: "tag = ''secrets'' \<Longrightarrow> ?thesis"
    using assms(3)
    by (cases "Secrets (Client_Clientset c) ns n")
      (simp add: GetTarget_def read_of_kind_def GetSecret_eq split: if_splits)
  have Deployment: "tag = ''deployments'' \<Longrightarrow> ?thesis"
    using assms(3)
    by (cases "Deployments (Client_Clientset c) ns n")
      (simp add: GetTarget_def read_of_kind_def GetDeployment_eq split: if_splits)
  have StatefulSet: "tag = ''statefulsets'' \<Longrightarrow> ?thesis"
    using assms(3)
    by (cases "StatefulSets (Client_Clientset c) ns n")
      (simp add: GetTarget_def read_of_kind_def GetStatefulSet_eq split: if_splits)
  have ReplicaSet: "tag = ''replicasets'' \<Longrightarrow> ?thesis"
    using assms(3)
    by (cases "ReplicaSets (Client_Clientset c) ns n")
      (simp add: GetTarget_def read_of_kind_def GetReplicaSet_eq split: if_splits)
  have Service: "tag = ''services'' \<Longrightarrow> ?thesis"
    using assms(3)
    by (cases "Services (Client_Clientset c) ns n")
      (simp add: GetTarget_def read_of_kind_def GetService_eq split: if_splits)
  have ServiceAccount: "tag = ''serviceaccounts'' \<Longrightarrow> ?thesis"
    using assms(3)
    by (cases "ServiceAccounts (Client_Clientset c) ns n")
      (simp add: GetTarget_def read_of_kind_def GetServiceAccount_eq split: if_splits)
  have Role: "tag = ''roles'' \<Longrightarrow> ?thesis"
    using assms(3)
    by (cases "Roles (Client_Clientset c) ns n")
      (simp add: GetTarget_def read_of_kind_def GetRole_eq split: if_splits)
  have ClusterRole: "tag = ''clusterroles'' \<Longrightarrow> ?thesis"
    using assms(3)
    by (cases "ClusterRoles (Client_Clientset c) n")
      (simp add: GetTarget_def read_of_kind_def GetClusterRole_eq split: if_splits)
  from tags show ?thesis
  proof (elim disjE)
    assume "tag = ''namespaces''"
    then show ?thesis by (rule Namespace)
  next
    assume "tag = ''configmaps''"
    then show ?thesis by (rule ConfigMap)
  next
    assume "tag = ''secrets''"
    then show ?thesis by (rule Secret)
  next
    assume "tag = ''deployments''"
    then show ?thesis by (rule Deployment)
  next
    assume "tag = ''daemonsets''"
    with assms(2) show ?thesis by (rule notE)
  next
    assume "tag = ''statefulsets''"
    then show ?thesis by (rule StatefulSet)
  next
    assume "tag = ''replicasets''"
    then show ?thesis by (rule ReplicaSet)
  next
    assume "tag = ''services''"
    then show ?thesis by (rule Service)
  next
    assume "tag = ''serviceaccounts''"
    then show ?thesis by (rule ServiceAccount)
  next
    assume "tag = ''roles''"
    then show ?thesis by (rule Role)
  next
    assume "tag = ''clusterroles''"
    then show ?thesis by (rule ClusterRole)
  qed
qed

text \<open>
  Claim C1. For each of the eleven tags, \<^const>\<open>GetTarget\<close> is to return the object of the
  tag's kind that the cluster holds for the name and the namespace. Under the tag
  \<^verbatim>\<open>daemonsets\<close> it does not: the small cluster holds the daemonset \<^verbatim>\<open>agent\<close> in
  \<^verbatim>\<open>ns1\<close>, which \<^const>\<open>GetDaemonSet\<close> returns, and \<^const>\<open>GetTarget\<close> reads a
  deployment of that name instead and returns the error that there is none.
\<close>

theorem GetTarget_daemonsets_misses_daemonset:
  "read_of_kind example_Clientset ''daemonsets'' ''agent'' ''ns1'' =
     (AnyDaemonSet (Some \<lparr>DaemonSet_ObjectMeta = meta ''agent'' ''ns1''\<rparr>), None)
   \<and> GetDaemonSet example_Client ''agent'' ''ns1'' =
       ((Some \<lparr>DaemonSet_ObjectMeta = meta ''agent'' ''ns1''\<rparr>, None),
        [DaemonSetsGet ''ns1'' ''agent''])
   \<and> GetTarget example_Client ''daemonsets'' ''agent'' ''ns1'' =
       ((AnyDeployment None,
         Some (errorString ''the deployment 'agent' in the namespace 'ns1' doesn't exist'')),
        [DeploymentsGet ''ns1'' ''agent''])"
  by (simp add: read_of_kind_def GetTarget_def GetDeployment_eq GetDaemonSet_eq
      example_Client_def example_Clientset_def notFound_def not_found_message_def quoted_def)

end
